theory Spec2Isabelle
  imports Complex_Main "HOL-Library.Sublist"
begin

section \<open>Python values: exceptions, arrays, reductions\<close>

text \<open>
  The module under study is \<^verbatim>\<open>mogptk/sm_lmc.py\<close>: the class \<^verbatim>\<open>SM_LMC\<close> with its
  constructor and the method \<^verbatim>\<open>estimate_params\<close>. Every \<^verbatim>\<open>raise\<close> of the module and
  every exception the interpreter raises on its behalf is a value of \<open>error\<close>;
  a Python \<^verbatim>\<open>float\<close> is read as a real number (rounding, \<^verbatim>\<open>nan\<close> and \<^verbatim>\<open>inf\<close> are
  outside the model: where numpy would yield \<^verbatim>\<open>nan\<close> for an empty mean, the model
  has the value HOL gives to a division by zero).
\<close>

datatype error =
    Exception string
  | NameError string
  | UnboundLocalError string
  | AttributeError string
  | TypeError
  | IndexError
  | ValueError

definition quoted :: "string \<Rightarrow> string" where
  "quoted s = CHR 0x27 # s @ [CHR 0x27]"

text \<open>The two messages the module raises itself (lines 20 and 85).\<close>

definition msg_Rq :: string where
  "msg_Rq = ''Rq != 1 is not (yet) supported''"

definition msg_modes :: string where
  "msg_modes = ''possible modes are either '' @ quoted ''BNSE'' @ '' or '' @ quoted ''SM''"

text \<open>
  A numpy array is a shape and its items. Arrays handed in by collaborators are read
  through bounds-checked accessors; arrays the method builds are lists (of rows).
\<close>

record ndarray2 =
  rows :: nat
  cols :: nat
  at2 :: "nat \<Rightarrow> nat \<Rightarrow> real"

record ndarray3 =
  len0 :: nat
  len1 :: nat
  len2 :: nat
  at3 :: "nat \<Rightarrow> nat \<Rightarrow> nat \<Rightarrow> real"

datatype ndarray = Vec "real list" | Mat "real list list"

text \<open>\<^verbatim>\<open>a.mean()\<close> over all items, and \<^verbatim>\<open>a.var()\<close> (divisor \<open>n\<close>).\<close>

definition mean :: "real list \<Rightarrow> real" where
  "mean xs = sum_list xs / real (length xs)"

definition var :: "real list \<Rightarrow> real" where
  "var xs = mean (map (\<lambda>x. (x - mean xs)\<^sup>2) xs)"

text \<open>\<^verbatim>\<open>a[c, :, q]\<close> and \<^verbatim>\<open>a[:, :, q]\<close> for non-negative indices.\<close>

definition slice_cq :: "ndarray3 \<Rightarrow> nat \<Rightarrow> nat \<Rightarrow> error + real list" where
  "slice_cq a c q =
     (if c < len0 a \<and> q < len2 a then Inr (map (\<lambda>d. at3 a c d q) [0..<len1 a])
      else Inl IndexError)"

definition slice_q :: "ndarray3 \<Rightarrow> nat \<Rightarrow> error + ndarray2" where
  "slice_q a q =
     (if q < len2 a then Inr \<lparr>rows = len0 a, cols = len1 a, at2 = (\<lambda>c d. at3 a c d q)\<rparr>
      else Inl IndexError)"

text \<open>\<^verbatim>\<open>a.mean(axis=0)\<close> and \<^verbatim>\<open>a.mean(axis=1)\<close> of a two-dimensional array.\<close>

definition mean_axis0 :: "ndarray2 \<Rightarrow> real list" where
  "mean_axis0 a = map (\<lambda>j. mean (map (\<lambda>i. at2 a i j) [0..<rows a])) [0..<cols a]"

definition mean_axis1 :: "ndarray2 \<Rightarrow> real list" where
  "mean_axis1 a = map (\<lambda>i. mean (map (\<lambda>j. at2 a i j) [0..<cols a])) [0..<rows a]"

text \<open>
  \<^verbatim>\<open>v.reshape(R, -1)\<close> of a one-dimensional array: \<open>R\<close> rows when \<open>R\<close> is positive
  and divides the size, \<^verbatim>\<open>ValueError\<close> otherwise.
\<close>

definition reshape :: "int \<Rightarrow> real list \<Rightarrow> error + real list list" where
  "reshape R v =
     (if 1 \<le> R \<and> length v mod nat R = 0
      then (let k = length v div nat R
            in Inr (map (\<lambda>i. take k (drop (i * k) v)) [0..<nat R]))
      else Inl ValueError)"

text \<open>
  \<^verbatim>\<open>np.empty(shape)\<close> allocates without initialising; the model fills with \<open>0\<close>.
  \<^verbatim>\<open>m[:, j] = x\<close> and \<^verbatim>\<open>v[i] = x\<close> raise \<^verbatim>\<open>IndexError\<close> out of range.
\<close>

definition np_empty2 :: "nat \<Rightarrow> nat \<Rightarrow> real list list" where
  "np_empty2 r c = replicate r (replicate c 0)"

definition np_empty1 :: "nat \<Rightarrow> real list" where
  "np_empty1 n = replicate n 0"

definition set_column :: "real list list \<Rightarrow> nat \<Rightarrow> nat \<Rightarrow> real \<Rightarrow> error + real list list" where
  "set_column m ncols j x =
     (if j < ncols then Inr (map (\<lambda>row. row[j := x]) m) else Inl IndexError)"

definition set_item :: "real list \<Rightarrow> nat \<Rightarrow> real \<Rightarrow> error + real list" where
  "set_item v i x = (if i < length v then Inr (v[i := x]) else Inl IndexError)"

text \<open>\<^verbatim>\<open>xs[i]\<close> on a Python list, for a non-negative index.\<close>

definition item :: "'a list \<Rightarrow> nat \<Rightarrow> error + 'a" where
  "item xs i = (if i < length xs then Inr (xs ! i) else Inl IndexError)"

section \<open>Collaborators of the module\<close>

text \<open>
  Modelled from the spec: the class \<^verbatim>\<open>DataSet\<close> is not among the sources. The spec
  describes it as an ordered collection of channels, each with an input dimensionality
  and observed output values \<^verbatim>\<open>Y\<close>; it exposes the channel count (\<^verbatim>\<open>len\<close>, equal to
  the output dimensionality), iteration over the channels, the input dimensionality per
  channel, and a PSD-peak estimation taking a component count and returning
  amplitude, mean and variance arrays indexed by (channel, input dimension, component).
\<close>

record channel =
  input_dims :: nat
  Y :: "real list"

record dataset =
  channels :: "channel list"
  get_bnse_estimation :: "int \<Rightarrow> ndarray3 \<times> ndarray3 \<times> ndarray3"

definition get_input_dims :: "dataset \<Rightarrow> nat list" where
  "get_input_dims ds = map input_dims (channels ds)"

definition get_output_dims :: "dataset \<Rightarrow> nat" where
  "get_output_dims ds = length (channels ds)"

definition len :: "dataset \<Rightarrow> nat" where
  "len ds = length (channels ds)"

text \<open>
  Modelled from the spec: \<^verbatim>\<open>_estimate_from_sm\<close> is not among the sources. The spec
  describes it as accepting the dataset, Q, an init scheme name, an optimizer name, a
  maximum iteration count and a plot flag, and returning per-component dictionaries
  with \<^verbatim>\<open>weight\<close>, \<^verbatim>\<open>mean\<close> and \<^verbatim>\<open>scale\<close> arrays.
\<close>

record sm_fit =
  weight :: ndarray2
  mean_fit :: ndarray2
  scale :: ndarray2

type_synonym estimate_from_sm =
  "dataset \<Rightarrow> int \<Rightarrow> string \<Rightarrow> string \<Rightarrow> int \<Rightarrow> bool \<Rightarrow> sm_fit list"

text \<open>
  Names are resolved when a statement runs, in the module's global namespace. The
  objects that matter here: a class, the numpy module, the independent-fit function.
\<close>

datatype pyobj = PyClass string | Numpy | Function estimate_from_sm

type_synonym namespace = "string \<Rightarrow> pyobj option"

definition load_global :: "namespace \<Rightarrow> string \<Rightarrow> error + pyobj" where
  "load_global g n = (case g n of None \<Rightarrow> Inl (NameError n) | Some v \<Rightarrow> Inr v)"

text \<open>\<^verbatim>\<open>np.attr\<close>: the name \<^verbatim>\<open>np\<close> is loaded, then the attribute is read from it.\<close>

definition np :: "namespace \<Rightarrow> string \<Rightarrow> error + unit" where
  "np g attr =
     (case load_global g ''np'' of
        Inl e \<Rightarrow> Inl e
      | Inr Numpy \<Rightarrow> Inr ()
      | Inr _ \<Rightarrow> Inl (AttributeError attr))"

text \<open>
  The namespace of \<^verbatim>\<open>sm_lmc.py\<close> as written: lines 1 and 2 import \<^verbatim>\<open>model\<close>,
  \<^verbatim>\<open>SpectralMixtureLMC\<close> and \<^verbatim>\<open>Noise\<close>, and line 4 binds \<^verbatim>\<open>SM_LMC\<close>. Nothing else
  is bound.
\<close>

definition sm_lmc_globals :: namespace where
  "sm_lmc_globals =
     [''model'' \<mapsto> PyClass ''model'',
      ''SpectralMixtureLMC'' \<mapsto> PyClass ''SpectralMixtureLMC'',
      ''Noise'' \<mapsto> PyClass ''Noise'',
      ''SM_LMC'' \<mapsto> PyClass ''SM_LMC'']"

text \<open>
  Modelled from the spec: the kernel classes \<^verbatim>\<open>SpectralMixtureLMC\<close> and \<^verbatim>\<open>Noise\<close> are
  not among the sources. A kernel block is what its constructor received; a composed
  kernel is the list of its summands in the order they were added. The spec gives the
  shapes of the parameter slots: input_dims by output_dims for constant, mean and scale,
  output_dims for noise.
\<close>

datatype kernel = SpectralMixtureLMC nat nat int | Noise nat nat

fun param_shape :: "kernel \<Rightarrow> string \<Rightarrow> nat list option" where
  "param_shape (SpectralMixtureLMC D M R) p =
     (if p = ''constant'' \<or> p = ''mean'' \<or> p = ''scale'' then Some [D, M] else None)"
| "param_shape (Noise D M) p = (if p = ''noise'' then Some [M] else None)"

text \<open>
  Modelled from the spec: the base class \<^verbatim>\<open>model\<close> is not among the sources. It
  keeps the name and the dataset, opens the computation context, builds the model from
  the composed kernel (\<^verbatim>\<open>_build\<close>) and offers the write primitive
  \<^verbatim>\<open>set_param(component_index, name, value)\<close>. The field \<open>written\<close> is the history of
  \<^verbatim>\<open>set_param\<close> calls, oldest first; it is not part of the Python object and serves to
  state the order of writes.
\<close>

record build_args =
  likelihood :: "string option"
  variational :: bool
  sparse :: bool
  like_params :: "(string \<times> string) list"

record model =
  name :: string
  dataset :: dataset
  Q :: int
  Rq :: int
  kernel :: "kernel list"
  built_with :: "build_args option"
  params :: "int \<times> string \<Rightarrow> ndarray option"
  written :: "(int \<times> string \<times> ndarray) list"

definition set_param :: "model \<Rightarrow> int \<Rightarrow> string \<Rightarrow> ndarray \<Rightarrow> model" where
  "set_param m q p v =
     m\<lparr>params := (params m)((q, p) \<mapsto> v), written := written m @ [(q, p, v)]\<rparr>"

section \<open>The constructor \<^verbatim>\<open>SM_LMC.__init__\<close> (lines 18 to 39)\<close>

text \<open>
  The constructor returns the collaborator calls it made, in order, and either the
  exception it raised or the object it built. The names it loads (\<^verbatim>\<open>model\<close>,
  \<^verbatim>\<open>SpectralMixtureLMC\<close>, \<^verbatim>\<open>Noise\<close>) are bound by lines 1 and 2; a \<^verbatim>\<open>with\<close>
  block is left on every path, also when its body raises. The local variable
  \<^verbatim>\<open>kernel_set\<close> is unbound (\<open>None\<close>) until the first assignment.
\<close>

datatype event =
    ModelInit string
  | EnterGraph
  | EnterSession
  | NewKernel kernel
  | Build "kernel list"
  | ExitSession
  | ExitGraph

definition model_init :: "string \<Rightarrow> dataset \<Rightarrow> model" where
  "model_init nm ds =
     \<lparr>name = nm, dataset = ds, Q = 0, Rq = 0, kernel = [], built_with = None,
      params = (\<lambda>_. None), written = []\<rparr>"

definition build :: "model \<Rightarrow> kernel list \<Rightarrow> build_args \<Rightarrow> model" where
  "build self kernel_set args = self\<lparr>kernel := kernel_set, built_with := Some args\<rparr>"

text \<open>
  \<^verbatim>\<open>kernel_set += k\<close> reads \<^verbatim>\<open>kernel_set\<close> before it evaluates the right-hand side.
\<close>

definition load_kernel_set :: "kernel list option \<Rightarrow> error + kernel list" where
  "load_kernel_set ks =
     (case ks of None \<Rightarrow> Inl (UnboundLocalError ''kernel_set'') | Some l \<Rightarrow> Inr l)"

text \<open>Lines 28 to 37, over the values of \<^verbatim>\<open>range(self.Q)\<close> still to come.\<close>

fun build_kernels ::
  "model \<Rightarrow> nat list \<Rightarrow> kernel list option \<Rightarrow> event list \<times> (error + kernel list option)"
where
  "build_kernels self [] ks = ([], Inr ks)"
| "build_kernels self (q # qs) ks =
     (case item (get_input_dims (dataset self)) 0 of
        Inl e \<Rightarrow> ([], Inl e)
      | Inr D \<Rightarrow>
          (let kernel = SpectralMixtureLMC D (get_output_dims (dataset self)) (Rq self)
           in if q = 0
              then (case build_kernels self qs (Some [kernel]) of
                      (ev, r) \<Rightarrow> (NewKernel kernel # ev, r))
              else (case load_kernel_set ks of
                      Inl e \<Rightarrow> ([NewKernel kernel], Inl e)
                    | Inr l \<Rightarrow>
                        (case build_kernels self qs (Some (l @ [kernel])) of
                           (ev, r) \<Rightarrow> (NewKernel kernel # ev, r)))))"

text \<open>Lines 28 to 39: the body of the two \<^verbatim>\<open>with\<close> blocks.\<close>

definition init_body :: "model \<Rightarrow> build_args \<Rightarrow> event list \<times> (error + model)" where
  "init_body self args =
     (case build_kernels self [0..<nat (Q self)] None of
        (ev, Inl e) \<Rightarrow> (ev, Inl e)
      | (ev, Inr ks) \<Rightarrow>
          (case load_kernel_set ks of
             Inl e \<Rightarrow> (ev, Inl e)
           | Inr l \<Rightarrow>
               (case item (get_input_dims (dataset self)) 0 of
                  Inl e \<Rightarrow> (ev, Inl e)
                | Inr D \<Rightarrow>
                    (let noise = Noise D (get_output_dims (dataset self));
                         kernel_set = l @ [noise]
                     in (ev @ [NewKernel noise, Build kernel_set],
                         Inr (build self kernel_set args))))))"

definition SM_LMC_init ::
  "dataset \<Rightarrow> int \<Rightarrow> int \<Rightarrow> string \<Rightarrow> build_args \<Rightarrow> event list \<times> (error + model)"
where
  "SM_LMC_init ds Q0 Rq0 nm args =
     (if Rq0 \<noteq> 1 then ([], Inl (Exception msg_Rq))
      else (let self = (model_init nm ds)\<lparr>Q := Q0, Rq := Rq0\<rparr>
            in case init_body self args of
                 (ev, r) \<Rightarrow>
                   (ModelInit nm # EnterGraph # EnterSession # ev @ [ExitSession, ExitGraph], r)))"

section \<open>The estimator \<^verbatim>\<open>SM_LMC.estimate_params\<close> (lines 41 to 90)\<close>

text \<open>A \<^verbatim>\<open>for\<close> loop whose body may raise: the first exception ends the loop.\<close>

fun for_each ::
  "('a \<Rightarrow> model \<Rightarrow> (error + unit) \<times> model) \<Rightarrow> 'a list \<Rightarrow> model \<Rightarrow> (error + unit) \<times> model"
where
  "for_each body [] self = (Inr (), self)"
| "for_each body (x # xs) self =
     (case body x self of
        (Inl e, self') \<Rightarrow> (Inl e, self')
      | (Inr _, self') \<Rightarrow> for_each body xs self')"

text \<open>Lines 68 and 69, over the channel indices still to come.\<close>

fun fill_constant ::
  "ndarray3 \<Rightarrow> nat \<Rightarrow> nat \<Rightarrow> nat list \<Rightarrow> real list list \<Rightarrow> error + real list list"
where
  "fill_constant amplitudes q ncols [] constant = Inr constant"
| "fill_constant amplitudes q ncols (channel # rest) constant =
     (case slice_cq amplitudes channel q of
        Inl e \<Rightarrow> Inl e
      | Inr a \<Rightarrow>
          (case set_column constant ncols channel (mean a) of
             Inl e \<Rightarrow> Inl e
           | Inr constant' \<Rightarrow> fill_constant amplitudes q ncols rest constant'))"

text \<open>Line 71 without the name lookup: \<^verbatim>\<open>sqrt(constant / constant.mean())\<close>.\<close>

definition sqrt_normalised :: "real list list \<Rightarrow> real list list" where
  "sqrt_normalised constant =
     (let mu = mean (concat constant) in map (map (\<lambda>x. sqrt (x / mu))) constant)"

text \<open>Lines 67 to 73 for one \<open>q\<close>: the three values, before any of them is written.\<close>

definition bnse_values ::
  "namespace \<Rightarrow> ndarray3 \<times> ndarray3 \<times> ndarray3 \<Rightarrow> nat \<Rightarrow> dataset
     \<Rightarrow> error + real list list \<times> real list \<times> real list"
where
  "bnse_values g est q ds =
     (case est of (amplitudes, means, variances) \<Rightarrow>
        (case np g ''empty'' of
           Inl e \<Rightarrow> Inl e
         | Inr _ \<Rightarrow>
        (case item (get_input_dims ds) 0 of
           Inl e \<Rightarrow> Inl e
         | Inr D \<Rightarrow>
        (case fill_constant amplitudes q (get_output_dims ds) [0..<len ds]
                (np_empty2 D (get_output_dims ds)) of
           Inl e \<Rightarrow> Inl e
         | Inr constant \<Rightarrow>
        (case np g ''sqrt'' of
           Inl e \<Rightarrow> Inl e
         | Inr _ \<Rightarrow>
        (case slice_q means q of
           Inl e \<Rightarrow> Inl e
         | Inr ms \<Rightarrow>
        (case slice_q variances q of
           Inl e \<Rightarrow> Inl e
         | Inr vs \<Rightarrow>
             Inr (sqrt_normalised constant, mean_axis0 ms, mean_axis0 vs))))))))"

text \<open>Lines 67 to 77 for one \<open>q\<close>.\<close>

definition bnse_component ::
  "namespace \<Rightarrow> ndarray3 \<times> ndarray3 \<times> ndarray3 \<Rightarrow> nat \<Rightarrow> model \<Rightarrow> (error + unit) \<times> model"
where
  "bnse_component g est q self =
     (case bnse_values g est q (dataset self) of
        Inl e \<Rightarrow> (Inl e, self)
      | Inr (constant, mean_q, variance) \<Rightarrow>
          (let self1 = set_param self (int q) ''constant'' (Mat constant)
           in (case np g ''pi'' of
                 Inl e \<Rightarrow> (Inl e, self1)
               | Inr _ \<Rightarrow>
                   (let self2 = set_param self1 (int q) ''mean''
                                  (Vec (map (\<lambda>x. x * 2 * pi) mean_q))
                    in (Inr (),
                        set_param self2 (int q) ''scale''
                          (Vec (map (\<lambda>x. x * 2) variance)))))))"

text \<open>
  Lines 81 to 83 for one \<open>q\<close>; \<^verbatim>\<open>params[q]\<close> is read on each line and is the same
  dictionary each time.
\<close>

definition sm_component :: "sm_fit list \<Rightarrow> nat \<Rightarrow> model \<Rightarrow> (error + unit) \<times> model" where
  "sm_component params_sm q self =
     (case item params_sm q of Inl e \<Rightarrow> (Inl e, self) | Inr p \<Rightarrow>
      (case reshape (Rq self) (mean_axis0 (weight p)) of
         Inl e \<Rightarrow> (Inl e, self)
       | Inr constant \<Rightarrow>
           (let self1 = set_param self (int q) ''constant'' (Mat constant);
                self2 = set_param self1 (int q) ''mean'' (Vec (mean_axis1 (mean_fit p)))
            in (Inr (),
                set_param self2 (int q) ''variance''
                  (Vec (map (\<lambda>x. x * 2) (mean_axis1 (scale p))))))))"

text \<open>Lines 88 and 89, over the pairs of \<^verbatim>\<open>enumerate(self.dataset)\<close> still to come.\<close>

fun fill_noise :: "(nat \<times> channel) list \<Rightarrow> real list \<Rightarrow> error + real list" where
  "fill_noise [] noise = Inr noise"
| "fill_noise ((i, channel) # rest) noise =
     (case set_item noise i (var (Y channel) / 30) of
        Inl e \<Rightarrow> Inl e
      | Inr noise' \<Rightarrow> fill_noise rest noise')"

text \<open>Lines 87 to 90.\<close>

definition estimate_noise :: "namespace \<Rightarrow> model \<Rightarrow> (error + unit) \<times> model" where
  "estimate_noise g self =
     (case np g ''empty'' of Inl e \<Rightarrow> (Inl e, self) | Inr _ \<Rightarrow>
      (case fill_noise (enumerate 0 (channels (dataset self)))
              (np_empty1 (get_output_dims (dataset self))) of
         Inl e \<Rightarrow> (Inl e, self)
       | Inr noise \<Rightarrow> (Inr (), set_param self (Q self) ''noise'' (Vec noise))))"

text \<open>Lines 64 to 85: the branch on \<^verbatim>\<open>method\<close>.\<close>

definition estimate_kernels ::
  "namespace \<Rightarrow> model \<Rightarrow> string \<Rightarrow> string \<Rightarrow> string \<Rightarrow> int \<Rightarrow> bool \<Rightarrow> (error + unit) \<times> model"
where
  "estimate_kernels g self method sm_init sm_method sm_maxiter plot =
     (if method = ''BNSE'' then
        for_each (bnse_component g (get_bnse_estimation (dataset self) (Q self)))
          [0..<nat (Q self)] self
      else if method = ''SM'' then
        (case load_global g ''_estimate_from_sm'' of
           Inl e \<Rightarrow> (Inl e, self)
         | Inr (Function f) \<Rightarrow>
             for_each (sm_component (f (dataset self) (Q self) sm_init sm_method sm_maxiter plot))
               [0..<nat (Q self)] self
         | Inr _ \<Rightarrow> (Inl TypeError, self))
      else (Inl (Exception msg_modes), self))"

definition estimate_params ::
  "namespace \<Rightarrow> model \<Rightarrow> string \<Rightarrow> string \<Rightarrow> string \<Rightarrow> int \<Rightarrow> bool \<Rightarrow> (error + unit) \<times> model"
where
  "estimate_params g self method sm_init sm_method sm_maxiter plot =
     (case estimate_kernels g self method sm_init sm_method sm_maxiter plot of
        (Inl e, self') \<Rightarrow> (Inl e, self')
      | (Inr _, self') \<Rightarrow> estimate_noise g self')"

text \<open>
  The body of the loop over \<open>q\<close> (lines 66 to 77, lines 80 to 83), when the method
  reaches one: there is none for an unsupported method, nor on the SM path when
  \<^verbatim>\<open>_estimate_from_sm\<close> does not resolve to a function.
\<close>

definition loop_body ::
  "namespace \<Rightarrow> model \<Rightarrow> string \<Rightarrow> string \<Rightarrow> string \<Rightarrow> int \<Rightarrow> bool
     \<Rightarrow> (nat \<Rightarrow> model \<Rightarrow> (error + unit) \<times> model) option"
where
  "loop_body g self method sm_init sm_method sm_maxiter plot =
     (if method = ''BNSE'' then
        Some (bnse_component g (get_bnse_estimation (dataset self) (Q self)))
      else if method = ''SM'' then
        (case load_global g ''_estimate_from_sm'' of
           Inr (Function f) \<Rightarrow>
             Some (sm_component (f (dataset self) (Q self) sm_init sm_method sm_maxiter plot))
         | _ \<Rightarrow> None)
      else None)"

section \<open>Worked inputs\<close>

text \<open>
  A dataset of two one-dimensional channels with a fixed PSD-peak estimate of one peak
  per channel, the model the constructor builds from it with the default arguments, and
  a dataset without channels.
\<close>

definition default_args :: build_args where
  "default_args = \<lparr>likelihood = None, variational = False, sparse = False, like_params = []\<rparr>"

definition example_peaks :: "ndarray3 \<times> ndarray3 \<times> ndarray3" where
  "example_peaks =
     (\<lparr>len0 = 2, len1 = 1, len2 = 1, at3 = (\<lambda>c d q. if c = 0 then 1 else 3)\<rparr>,
      \<lparr>len0 = 2, len1 = 1, len2 = 1, at3 = (\<lambda>c d q. if c = 0 then 2 else 4)\<rparr>,
      \<lparr>len0 = 2, len1 = 1, len2 = 1, at3 = (\<lambda>c d q. if c = 0 then 5 else 7)\<rparr>)"

definition example_dataset :: dataset where
  "example_dataset =
     \<lparr>channels = [\<lparr>input_dims = 1, Y = [1, 2, 3]\<rparr>, \<lparr>input_dims = 1, Y = [2, 4, 6, 8]\<rparr>],
      get_bnse_estimation = (\<lambda>_. example_peaks)\<rparr>"

definition empty_dataset :: dataset where
  "empty_dataset = \<lparr>channels = [], get_bnse_estimation = (\<lambda>_. example_peaks)\<rparr>"

definition example_model :: model where
  "example_model =
     \<lparr>name = ''SM-LMC'', dataset = example_dataset, Q = 1, Rq = 1,
      kernel = [SpectralMixtureLMC 1 2 1, Noise 1 2], built_with = Some default_args,
      params = (\<lambda>_. None), written = []\<rparr>"

section \<open>The writes of a run\<close>

text \<open>
  The estimator reads the dataset, \<^verbatim>\<open>self.Q\<close> and \<^verbatim>\<open>self.Rq\<close> and never reads a
  parameter back. The functions below give, for each part of the method, how it ends
  and the list of \<^verbatim>\<open>set_param\<close> calls it makes, as a function of what it reads; the
  lemmas further down (\<open>estimate_params_writes\<close>) show that the method is this list
  applied to the model.
\<close>

type_synonym param_write = "int \<times> string \<times> ndarray"

definition apply_writes :: "param_write list \<Rightarrow> model \<Rightarrow> model" where
  "apply_writes ws self = foldl (\<lambda>m (q, p, v). set_param m q p v) self ws"

definition key :: "param_write \<Rightarrow> int \<times> string" where
  "key w = (fst w, fst (snd w))"

text \<open>Lines 67 to 77 for one \<open>q\<close>.\<close>

definition bnse_writes ::
  "namespace \<Rightarrow> ndarray3 \<times> ndarray3 \<times> ndarray3 \<Rightarrow> dataset \<Rightarrow> nat \<Rightarrow> (error + unit) \<times> param_write list"
where
  "bnse_writes g est ds q =
     (case bnse_values g est q ds of
        Inl e \<Rightarrow> (Inl e, [])
      | Inr (constant, mean_q, variance) \<Rightarrow>
          (case np g ''pi'' of
             Inl e \<Rightarrow> (Inl e, [(int q, ''constant'', Mat constant)])
           | Inr _ \<Rightarrow>
               (Inr (),
                [(int q, ''constant'', Mat constant),
                 (int q, ''mean'', Vec (map (\<lambda>x. x * 2 * pi) mean_q)),
                 (int q, ''scale'', Vec (map (\<lambda>x. x * 2) variance))])))"

text \<open>Lines 81 to 83 for one \<open>q\<close>.\<close>

definition sm_writes :: "sm_fit list \<Rightarrow> int \<Rightarrow> nat \<Rightarrow> (error + unit) \<times> param_write list" where
  "sm_writes params_sm R q =
     (case item params_sm q of
        Inl e \<Rightarrow> (Inl e, [])
      | Inr p \<Rightarrow>
          (case reshape R (mean_axis0 (weight p)) of
             Inl e \<Rightarrow> (Inl e, [])
           | Inr constant \<Rightarrow>
               (Inr (),
                [(int q, ''constant'', Mat constant),
                 (int q, ''mean'', Vec (mean_axis1 (mean_fit p))),
                 (int q, ''variance'', Vec (map (\<lambda>x. x * 2) (mean_axis1 (scale p))))])))"

text \<open>A \<^verbatim>\<open>for\<close> loop: the writes of the iterations up to the first that raises.\<close>

fun writes_each :: "('a \<Rightarrow> (error + unit) \<times> param_write list) \<Rightarrow> 'a list \<Rightarrow> (error + unit) \<times> param_write list"
where
  "writes_each w [] = (Inr (), [])"
| "writes_each w (x # xs) =
     (case w x of
        (Inl e, ws) \<Rightarrow> (Inl e, ws)
      | (Inr _, ws) \<Rightarrow> (case writes_each w xs of (r, ws') \<Rightarrow> (r, ws @ ws')))"

text \<open>Lines 87 to 90, lines 64 to 85, and the whole method.\<close>

definition noise_writes :: "namespace \<Rightarrow> dataset \<Rightarrow> int \<Rightarrow> (error + unit) \<times> param_write list" where
  "noise_writes g ds Q0 =
     (case np g ''empty'' of
        Inl e \<Rightarrow> (Inl e, [])
      | Inr _ \<Rightarrow>
          (case fill_noise (enumerate 0 (channels ds)) (np_empty1 (get_output_dims ds)) of
             Inl e \<Rightarrow> (Inl e, [])
           | Inr noise \<Rightarrow> (Inr (), [(Q0, ''noise'', Vec noise)])))"

definition kernel_writes ::
  "namespace \<Rightarrow> dataset \<Rightarrow> int \<Rightarrow> int \<Rightarrow> string \<Rightarrow> string \<Rightarrow> string \<Rightarrow> int \<Rightarrow> bool
     \<Rightarrow> (error + unit) \<times> param_write list"
where
  "kernel_writes g ds Q0 R method sm_init sm_method sm_maxiter plot =
     (if method = ''BNSE'' then
        writes_each (bnse_writes g (get_bnse_estimation ds Q0) ds) [0..<nat Q0]
      else if method = ''SM'' then
        (case load_global g ''_estimate_from_sm'' of
           Inl e \<Rightarrow> (Inl e, [])
         | Inr (Function f) \<Rightarrow>
             writes_each (sm_writes (f ds Q0 sm_init sm_method sm_maxiter plot) R) [0..<nat Q0]
         | Inr _ \<Rightarrow> (Inl TypeError, []))
      else (Inl (Exception msg_modes), []))"

definition estimate_writes ::
  "namespace \<Rightarrow> dataset \<Rightarrow> int \<Rightarrow> int \<Rightarrow> string \<Rightarrow> string \<Rightarrow> string \<Rightarrow> int \<Rightarrow> bool
     \<Rightarrow> (error + unit) \<times> param_write list"
where
  "estimate_writes g ds Q0 R method sm_init sm_method sm_maxiter plot =
     (case kernel_writes g ds Q0 R method sm_init sm_method sm_maxiter plot of
        (Inl e, ws) \<Rightarrow> (Inl e, ws)
      | (Inr _, ws) \<Rightarrow> (case noise_writes g ds Q0 of (r, ws') \<Rightarrow> (r, ws @ ws')))"

text \<open>The writes of the loop body for one \<open>q\<close>, when the method reaches the loop.\<close>

definition loop_writes ::
  "namespace \<Rightarrow> dataset \<Rightarrow> int \<Rightarrow> int \<Rightarrow> string \<Rightarrow> string \<Rightarrow> string \<Rightarrow> int \<Rightarrow> bool
     \<Rightarrow> (nat \<Rightarrow> (error + unit) \<times> param_write list) option"
where
  "loop_writes g ds Q0 R method sm_init sm_method sm_maxiter plot =
     (if method = ''BNSE'' then Some (bnse_writes g (get_bnse_estimation ds Q0) ds)
      else if method = ''SM'' then
        (case load_global g ''_estimate_from_sm'' of
           Inr (Function f) \<Rightarrow> Some (sm_writes (f ds Q0 sm_init sm_method sm_maxiter plot) R)
         | _ \<Rightarrow> None)
      else None)"

text \<open>
  The order of writes the spec describes: the components \<open>q = 0, \<dots>, Q - 1\<close> one
  after the other, each with its constant, its mean and its scale (named
  \<^verbatim>\<open>variance\<close> on the SM path), and the noise vector at index \<open>Q\<close> last.
\<close>

definition third_name :: "string \<Rightarrow> string" where
  "third_name method = (if method = ''BNSE'' then ''scale'' else ''variance'')"

definition component_keys :: "string \<Rightarrow> nat \<Rightarrow> (int \<times> string) list" where
  "component_keys method q = [(int q, ''constant''), (int q, ''mean''), (int q, third_name method)]"

definition write_order :: "string \<Rightarrow> int \<Rightarrow> (int \<times> string) list" where
  "write_order method Q0 =
     concat (map (component_keys method) [0..<nat Q0]) @ [(Q0, ''noise'')]"

text \<open>
  A namespace that binds \<^verbatim>\<open>np\<close> to numpy and \<^verbatim>\<open>_estimate_from_sm\<close> to a fit
  function with fixed results, next to the names the module binds itself; and the writes
  of the BNSE estimation of the example model in that namespace.
\<close>

definition example_fit :: estimate_from_sm where
  "example_fit ds Q0 sm_init sm_method sm_maxiter plot =
     [\<lparr>weight = \<lparr>rows = 1, cols = 2, at2 = (\<lambda>i j. if j = 0 then 2 else 4)\<rparr>,
       mean_fit = \<lparr>rows = 1, cols = 2, at2 = (\<lambda>i j. if j = 0 then 1 else 5)\<rparr>,
       scale = \<lparr>rows = 1, cols = 2, at2 = (\<lambda>i j. if j = 0 then 3 else 9)\<rparr>\<rparr>]"

definition numpy_globals :: namespace where
  "numpy_globals = sm_lmc_globals(''np'' \<mapsto> Numpy, ''_estimate_from_sm'' \<mapsto> Function example_fit)"

definition example_written :: "param_write list" where
  "example_written =
     [(0, ''constant'', Mat [[sqrt (1 / 2), sqrt (3 / 2)]]),
      (0, ''mean'', Vec [6 * pi]),
      (0, ''scale'', Vec [12]),
      (1, ''noise'', Vec [1 / 45, 1 / 6])]"



section \<open>The values the spec describes\<close>

text \<open>
  Written from the spec's words, to be compared with what lines 67 to 90 compute. For
  the BNSE strategy: the constant matrix holds, for each output channel, the square root
  of that channel's mean amplitude for peak \<open>q\<close> divided by the global mean of the
  matrix; the mean is peak \<open>q\<close>'s mean frequency averaged across channels, times
  \<open>2\<pi>\<close>; the scale is peak \<open>q\<close>'s variance averaged across channels, times 2. For
  the SM strategy: the constant is the fitted weight averaged over axis 0 as one row, the
  mean the fitted mean averaged over axis 1, the variance the fitted scale averaged over
  axis 1, times 2. For both: the noise of a channel is the population variance of its
  observed outputs divided by 30.
\<close>

definition amplitude :: "ndarray3 \<Rightarrow> nat \<Rightarrow> nat \<Rightarrow> real" where
  "amplitude A q c = mean (map (\<lambda>d. at3 A c d q) [0..<len1 A])"

definition spec_constant :: "ndarray3 \<Rightarrow> nat \<Rightarrow> nat \<Rightarrow> nat \<Rightarrow> real list list" where
  "spec_constant A D M q =
     (let global = mean (concat (replicate D (map (amplitude A q) [0..<M])))
      in replicate D (map (\<lambda>c. sqrt (amplitude A q c / global)) [0..<M]))"

definition spec_mean :: "ndarray3 \<Rightarrow> nat \<Rightarrow> real list" where
  "spec_mean Mu q = map (\<lambda>d. mean (map (\<lambda>c. at3 Mu c d q) [0..<len0 Mu]) * 2 * pi) [0..<len1 Mu]"

definition spec_scale :: "ndarray3 \<Rightarrow> nat \<Rightarrow> real list" where
  "spec_scale V q = map (\<lambda>d. mean (map (\<lambda>c. at3 V c d q) [0..<len0 V]) * 2) [0..<len1 V]"

definition spec_noise :: "dataset \<Rightarrow> real list" where
  "spec_noise ds = map (\<lambda>ch. var (Y ch) / 30) (channels ds)"

definition bnse_spec_writes ::
  "ndarray3 \<times> ndarray3 \<times> ndarray3 \<Rightarrow> dataset \<Rightarrow> nat \<Rightarrow> param_write list" where
  "bnse_spec_writes est ds q =
     (case est of (A, Mu, V) \<Rightarrow>
        [(int q, ''constant'',
            Mat (spec_constant A (input_dims (hd (channels ds))) (length (channels ds)) q)),
         (int q, ''mean'', Vec (spec_mean Mu q)),
         (int q, ''scale'', Vec (spec_scale V q))])"

definition sm_spec_writes :: "sm_fit list \<Rightarrow> nat \<Rightarrow> param_write list" where
  "sm_spec_writes ps q =
     [(int q, ''constant'', Mat [mean_axis0 (weight (ps ! q))]),
      (int q, ''mean'', Vec (mean_axis1 (mean_fit (ps ! q)))),
      (int q, ''variance'', Vec (map (\<lambda>x. x * 2) (mean_axis1 (scale (ps ! q)))))]"

section \<open>Name resolution in the module as written\<close>

lemma np_as_written: "np sm_lmc_globals attr = Inl (NameError ''np'')"
  by (simp add: np_def load_global_def sm_lmc_globals_def)

lemma estimate_from_sm_as_written:
  "load_global sm_lmc_globals ''_estimate_from_sm'' = Inl (NameError ''_estimate_from_sm'')"
  by (simp add: load_global_def sm_lmc_globals_def)

lemma for_each_raises:
  "(\<And>x. body x self = (Inl e, self)) \<Longrightarrow>
   for_each body xs self = (if xs = [] then (Inr (), self) else (Inl e, self))"
  by (cases xs) simp_all

lemma bnse_component_as_written:
  "bnse_component sm_lmc_globals est q self = (Inl (NameError ''np''), self)"
  by (simp add: bnse_component_def bnse_values_def np_as_written split: prod.splits)

lemma estimate_noise_as_written:
  "estimate_noise sm_lmc_globals self = (Inl (NameError ''np''), self)"
  by (simp add: estimate_noise_def np_as_written)

lemma BNSE_as_written:
  "estimate_params sm_lmc_globals self ''BNSE'' sm_init sm_method sm_maxiter plot
     = (Inl (NameError ''np''), self)"
  by (simp add: estimate_params_def estimate_kernels_def for_each_raises
      bnse_component_as_written estimate_noise_as_written)

lemma SM_as_written:
  "estimate_params sm_lmc_globals self ''SM'' sm_init sm_method sm_maxiter plot
     = (Inl (NameError ''_estimate_from_sm''), self)"
  by (simp add: estimate_params_def estimate_kernels_def estimate_from_sm_as_written)

text \<open>
  C4. In the module as written, \<^verbatim>\<open>estimate_params\<close> with method \<^verbatim>\<open>'BNSE'\<close> or
  \<^verbatim>\<open>'SM'\<close> raises \<^verbatim>\<open>NameError\<close> for every model and dataset (on \<^verbatim>\<open>np\<close>, respectively
  on \<^verbatim>\<open>_estimate_from_sm\<close>), and the model is as it was before the call: nothing has
  been written, and the call never returns normally.
\<close>

theorem estimate_params_NameError:
  "estimate_params sm_lmc_globals self ''BNSE'' sm_init sm_method sm_maxiter plot
     = (Inl (NameError ''np''), self)
   \<and> estimate_params sm_lmc_globals self ''SM'' sm_init sm_method sm_maxiter plot
     = (Inl (NameError ''_estimate_from_sm''), self)"
  by (simp add: BNSE_as_written SM_as_written)

theorem estimate_params_NameError_witness:
  "estimate_params sm_lmc_globals example_model ''BNSE'' ''BNSE'' ''BFGS'' 2000 False
     = (Inl (NameError ''np''), example_model)
   \<and> estimate_params sm_lmc_globals example_model ''SM'' ''BNSE'' ''BFGS'' 2000 False
     = (Inl (NameError ''_estimate_from_sm''), example_model)"
  using estimate_params_NameError [of example_model "''BNSE''" "''BFGS''" 2000 False]
  by simp

section \<open>Configuration errors\<close>

text \<open>
  C5. For every \<open>Rq \<noteq> 1\<close> the constructor raises the configuration error at once:
  no collaborator has been called, so the base model is not initialised, the
  computation context is not entered and no kernel block is built.
\<close>

theorem SM_LMC_init_Rq:
  "Rq0 \<noteq> 1 \<Longrightarrow> SM_LMC_init ds Q0 Rq0 nm args = ([], Inl (Exception msg_Rq))"
  by (simp add: SM_LMC_init_def)

theorem SM_LMC_init_Rq_witness:
  "(2::int) \<noteq> 1 \<and>
   SM_LMC_init example_dataset 1 2 ''SM-LMC'' default_args = ([], Inl (Exception msg_Rq))"
  using SM_LMC_init_Rq [of 2 example_dataset 1 "''SM-LMC''" default_args]
  by simp

text \<open>
  C6. For every method string other than \<^verbatim>\<open>'BNSE'\<close> and \<^verbatim>\<open>'SM'\<close>,
  \<^verbatim>\<open>estimate_params\<close> raises the configuration error and leaves the model as it was,
  whatever the module's namespace binds.
\<close>

theorem estimate_params_unsupported:
  "method \<noteq> ''BNSE'' \<Longrightarrow> method \<noteq> ''SM'' \<Longrightarrow>
   estimate_params g self method sm_init sm_method sm_maxiter plot
     = (Inl (Exception msg_modes), self)"
  by (simp add: estimate_params_def estimate_kernels_def)

theorem estimate_params_unsupported_witness:
  "''MOSM'' \<noteq> ''BNSE'' \<and> ''MOSM'' \<noteq> ''SM'' \<and>
   estimate_params sm_lmc_globals example_model ''MOSM'' ''BNSE'' ''BFGS'' 2000 False
     = (Inl (Exception msg_modes), example_model)"
  using estimate_params_unsupported
    [of "''MOSM''" sm_lmc_globals example_model "''BNSE''" "''BFGS''" 2000 False]
  by simp

section \<open>What the constructor builds\<close>

lemma build_kernels_rest:
  "0 \<notin> set qs \<Longrightarrow> get_input_dims (dataset self) = D # Ds \<Longrightarrow>
   build_kernels self qs (Some l) =
     (replicate (length qs) (NewKernel (SpectralMixtureLMC D (get_output_dims (dataset self)) (Rq self))),
      Inr (Some (l @ replicate (length qs) (SpectralMixtureLMC D (get_output_dims (dataset self)) (Rq self)))))"
proof (induction qs arbitrary: l)
  case Nil
  then show ?case by simp
next
  case (Cons q qs)
  then show ?case
    by (simp add: item_def load_kernel_set_def Let_def)
qed

lemma build_kernels_range:
  assumes "get_input_dims (dataset self) = D # Ds" and "0 < n"
  shows "build_kernels self [0..<n] None =
     (replicate n (NewKernel (SpectralMixtureLMC D (get_output_dims (dataset self)) (Rq self))),
      Inr (Some (replicate n (SpectralMixtureLMC D (get_output_dims (dataset self)) (Rq self)))))"
proof -
  obtain k where n: "n = Suc k" using assms(2) by (cases n) auto
  have r: "[0..<n] = 0 # [1..<n]" using assms(2) by (simp add: upt_conv_Cons)
  have z: "0 \<notin> set [1..<n]" by simp
  show ?thesis
    unfolding r
    using build_kernels_rest [OF z assms(1), of "[SpectralMixtureLMC D (get_output_dims (dataset self)) (Rq self)]"]
    by (simp add: item_def assms(1) n Let_def)
qed

text \<open>
  C7, as the claim states it, fails on a dataset without channels: line 30 reads
  \<^verbatim>\<open>get_input_dims()[0]\<close> of an empty list and the constructor ends in
  \<^verbatim>\<open>IndexError\<close>.
\<close>

theorem SM_LMC_init_empty_dataset:
  "snd (SM_LMC_init empty_dataset 1 1 ''SM-LMC'' default_args) = Inl IndexError"
  by (simp add: SM_LMC_init_def init_body_def model_init_def empty_dataset_def
      get_input_dims_def item_def)

text \<open>
  C7, amended. For every dataset with at least one channel, every \<open>Q \<ge> 1\<close> and
  \<open>Rq = 1\<close>, the constructor succeeds; the kernel handed to \<^verbatim>\<open>_build\<close> is the sum
  of exactly \<open>Q\<close> SpectralMixtureLMC blocks followed by one Noise block, each built
  with the first channel's input dimensionality and the dataset's output
  dimensionality; the parameter slots have the shapes the spec gives them.
\<close>

theorem SM_LMC_init_builds:
  assumes "channels ds \<noteq> []" and "1 \<le> Q0"
  shows "SM_LMC_init ds Q0 1 nm args =
     (let D = input_dims (hd (channels ds));
          M = get_output_dims ds;
          kernel_set = replicate (nat Q0) (SpectralMixtureLMC D M 1) @ [Noise D M]
      in (ModelInit nm # EnterGraph # EnterSession # map NewKernel kernel_set
            @ [Build kernel_set, ExitSession, ExitGraph],
          Inr \<lparr>name = nm, dataset = ds, Q = Q0, Rq = 1, kernel = kernel_set,
               built_with = Some args, params = (\<lambda>_. None), written = []\<rparr>))
   \<and> param_shape (SpectralMixtureLMC (input_dims (hd (channels ds))) (get_output_dims ds) 1) ''constant''
       = Some [input_dims (hd (channels ds)), get_output_dims ds]
   \<and> param_shape (SpectralMixtureLMC (input_dims (hd (channels ds))) (get_output_dims ds) 1) ''mean''
       = Some [input_dims (hd (channels ds)), get_output_dims ds]
   \<and> param_shape (SpectralMixtureLMC (input_dims (hd (channels ds))) (get_output_dims ds) 1) ''scale''
       = Some [input_dims (hd (channels ds)), get_output_dims ds]
   \<and> param_shape (Noise (input_dims (hd (channels ds))) (get_output_dims ds)) ''noise''
       = Some [get_output_dims ds]"
proof -
  obtain c cs where ch: "channels ds = c # cs" using assms(1) by (cases "channels ds") auto
  define self where "self = (model_init nm ds)\<lparr>Q := Q0, Rq := 1\<rparr>"
  have gi: "get_input_dims ds = input_dims c # map input_dims cs"
    by (simp add: get_input_dims_def ch)
  have pos: "0 < nat Q0" using assms(2) by simp
  have sf: "dataset self = ds" "Q self = Q0" "Rq self = 1"
    by (simp_all add: self_def model_init_def)
  have gi': "get_input_dims (dataset self) = input_dims c # map input_dims cs"
    by (simp add: sf gi)
  have ks: "build_kernels self [0..<nat Q0] None =
     (replicate (nat Q0) (NewKernel (SpectralMixtureLMC (input_dims c) (get_output_dims ds) 1)),
      Inr (Some (replicate (nat Q0) (SpectralMixtureLMC (input_dims c) (get_output_dims ds) 1))))"
    using build_kernels_range [OF gi' pos] by (simp add: sf)
  have body: "init_body self args =
     (replicate (nat Q0) (NewKernel (SpectralMixtureLMC (input_dims c) (get_output_dims ds) 1))
        @ [NewKernel (Noise (input_dims c) (get_output_dims ds)),
           Build (replicate (nat Q0) (SpectralMixtureLMC (input_dims c) (get_output_dims ds) 1)
                    @ [Noise (input_dims c) (get_output_dims ds)])],
      Inr (build self (replicate (nat Q0) (SpectralMixtureLMC (input_dims c) (get_output_dims ds) 1)
                    @ [Noise (input_dims c) (get_output_dims ds)]) args))"
    by (simp add: init_body_def ks load_kernel_set_def item_def gi Let_def sf)
  show ?thesis
    unfolding SM_LMC_init_def
    using body
    by (simp add: self_def [symmetric] Let_def ch)
      (simp add: self_def model_init_def build_def)
qed

theorem SM_LMC_init_builds_witness:
  "channels example_dataset \<noteq> [] \<and> (1::int) \<le> 1 \<and>
   SM_LMC_init example_dataset 1 1 ''SM-LMC'' default_args =
     ([ModelInit ''SM-LMC'', EnterGraph, EnterSession, NewKernel (SpectralMixtureLMC 1 2 1),
       NewKernel (Noise 1 2), Build [SpectralMixtureLMC 1 2 1, Noise 1 2], ExitSession, ExitGraph],
      Inr example_model)"
proof -
  have h1: "channels example_dataset \<noteq> []" by (simp add: example_dataset_def)
  have h2: "(1::int) \<le> 1" by simp
  show ?thesis
    using SM_LMC_init_builds [OF h1 h2, of "''SM-LMC''" default_args]
    by (simp add: example_dataset_def example_model_def get_output_dims_def Let_def)
qed

text \<open>
  C10. For \<open>Q = 0\<close>, past the guard on \<open>Rq\<close> (that is, with \<open>Rq = 1\<close>), the
  constructor raises no configuration error: the base model is initialised, the context
  is entered, the loop body never runs and no kernel block is built, and the
  noise-append step of line 38 ends in an unbound-local-variable error on
  \<^verbatim>\<open>kernel_set\<close>, for every dataset.
\<close>

theorem SM_LMC_init_Q0:
  "SM_LMC_init ds 0 1 nm args =
     ([ModelInit nm, EnterGraph, EnterSession, ExitSession, ExitGraph],
      Inl (UnboundLocalError ''kernel_set''))"
  by (simp add: SM_LMC_init_def init_body_def load_kernel_set_def model_init_def)

theorem SM_LMC_init_Q0_witness:
  "SM_LMC_init example_dataset 0 1 ''SM-LMC'' default_args =
     ([ModelInit ''SM-LMC'', EnterGraph, EnterSession, ExitSession, ExitGraph],
      Inl (UnboundLocalError ''kernel_set''))"
  using SM_LMC_init_Q0 [of example_dataset "''SM-LMC''" default_args]
  by simp

section \<open>The estimator in the module as written, at a concrete model\<close>

text \<open>
  C1. At the example model, \<^verbatim>\<open>estimate_params(method='BNSE')\<close> in the module as
  written ends in \<^verbatim>\<open>NameError\<close> on \<^verbatim>\<open>np\<close> (line 67), and block 0 has no
  \<^verbatim>\<open>constant\<close>, \<^verbatim>\<open>mean\<close> or \<^verbatim>\<open>scale\<close> written.
\<close>

theorem estimate_params_BNSE_example:
  "fst (estimate_params sm_lmc_globals example_model ''BNSE'' ''BNSE'' ''BFGS'' 2000 False)
     = Inl (NameError ''np'')
   \<and> params (snd (estimate_params sm_lmc_globals example_model ''BNSE'' ''BNSE'' ''BFGS'' 2000 False))
       (0, ''constant'') = None
   \<and> params (snd (estimate_params sm_lmc_globals example_model ''BNSE'' ''BNSE'' ''BFGS'' 2000 False))
       (0, ''mean'') = None
   \<and> params (snd (estimate_params sm_lmc_globals example_model ''BNSE'' ''BNSE'' ''BFGS'' 2000 False))
       (0, ''scale'') = None"
  by (simp add: BNSE_as_written) (simp add: example_model_def)

text \<open>
  C2. At the example model, \<^verbatim>\<open>estimate_params(method='SM')\<close> in the module as written
  ends in \<^verbatim>\<open>NameError\<close> on \<^verbatim>\<open>_estimate_from_sm\<close> (line 79), and block 0 has no
  \<^verbatim>\<open>constant\<close>, \<^verbatim>\<open>mean\<close> or \<^verbatim>\<open>variance\<close> written.
\<close>

theorem estimate_params_SM_example:
  "fst (estimate_params sm_lmc_globals example_model ''SM'' ''BNSE'' ''BFGS'' 2000 False)
     = Inl (NameError ''_estimate_from_sm'')
   \<and> params (snd (estimate_params sm_lmc_globals example_model ''SM'' ''BNSE'' ''BFGS'' 2000 False))
       (0, ''constant'') = None
   \<and> params (snd (estimate_params sm_lmc_globals example_model ''SM'' ''BNSE'' ''BFGS'' 2000 False))
       (0, ''mean'') = None
   \<and> params (snd (estimate_params sm_lmc_globals example_model ''SM'' ''BNSE'' ''BFGS'' 2000 False))
       (0, ''variance'') = None"
  by (simp add: SM_as_written) (simp add: example_model_def)

text \<open>
  C3. At the example model (\<open>Q = 1\<close>), with either method, the call in the module as
  written ends before line 87 and the noise block at index \<open>Q\<close> has no \<^verbatim>\<open>noise\<close>
  written.
\<close>

theorem estimate_params_noise_example:
  "params (snd (estimate_params sm_lmc_globals example_model ''BNSE'' ''BNSE'' ''BFGS'' 2000 False))
       (Q example_model, ''noise'') = None
   \<and> params (snd (estimate_params sm_lmc_globals example_model ''SM'' ''BNSE'' ''BFGS'' 2000 False))
       (Q example_model, ''noise'') = None"
  by (simp add: BNSE_as_written SM_as_written) (simp add: example_model_def)

section \<open>The method is its writes applied to the model\<close>

lemma apply_writes_simps:
  "apply_writes [] self = self"
  "apply_writes (w # ws) self = apply_writes ws (set_param self (fst w) (fst (snd w)) (snd (snd w)))"
  "apply_writes (ws @ ws') self = apply_writes ws' (apply_writes ws self)"
  by (simp_all add: apply_writes_def split_beta)

lemma apply_writes_frame:
  "dataset (apply_writes ws self) = dataset self"
  "Q (apply_writes ws self) = Q self"
  "Rq (apply_writes ws self) = Rq self"
  by (induction ws arbitrary: self) (simp_all add: apply_writes_simps set_param_def)


lemma apply_writes_params:
  "params (apply_writes ws self) = params self ++ map_of (rev (map (\<lambda>w. (key w, snd (snd w))) ws))"
  by (induction ws arbitrary: self) (simp_all add: apply_writes_simps set_param_def key_def)

lemma bnse_component_writes:
  "bnse_component g est q self =
     (fst (bnse_writes g est (dataset self) q), apply_writes (snd (bnse_writes g est (dataset self) q)) self)"
  by (simp add: bnse_component_def bnse_writes_def apply_writes_simps Let_def
      split: sum.splits prod.splits)

lemma sm_component_writes:
  "sm_component ps q self =
     (fst (sm_writes ps (Rq self) q), apply_writes (snd (sm_writes ps (Rq self) q)) self)"
  by (simp add: sm_component_def sm_writes_def apply_writes_simps Let_def
      split: sum.splits prod.splits)

lemma for_each_writes:
  assumes "\<And>x m. dataset m = ds \<Longrightarrow> Rq m = R \<Longrightarrow>
             body x m = (fst (w x), apply_writes (snd (w x)) m)"
    and "dataset self = ds" and "Rq self = R"
  shows "for_each body xs self = (fst (writes_each w xs), apply_writes (snd (writes_each w xs)) self)"
  using assms(2,3)
proof (induction xs arbitrary: self)
  case Nil
  then show ?case by (simp add: apply_writes_simps)
next
  case (Cons x xs)
  show ?case
  proof (cases "w x")
    case (Pair r ws)
    have b: "body x self = (r, apply_writes ws self)"
      using assms(1) [OF Cons.prems, of x] Pair by simp
    show ?thesis
    proof (cases r)
      case (Inl e)
      then show ?thesis using b Pair by simp
    next
      case (Inr u)
      have "for_each body xs (apply_writes ws self) =
            (fst (writes_each w xs), apply_writes (snd (writes_each w xs)) (apply_writes ws self))"
        by (rule Cons.IH) (simp_all add: apply_writes_frame Cons.prems)
      then show ?thesis
        using b Pair Inr by (simp add: apply_writes_simps split: prod.splits)
    qed
  qed
qed

lemma estimate_noise_writes:
  "estimate_noise g self =
     (fst (noise_writes g (dataset self) (Q self)),
      apply_writes (snd (noise_writes g (dataset self) (Q self))) self)"
  by (simp add: estimate_noise_def noise_writes_def apply_writes_simps split: sum.splits)

lemma estimate_kernels_writes:
  "estimate_kernels g self method sm_init sm_method sm_maxiter plot =
     (fst (kernel_writes g (dataset self) (Q self) (Rq self) method sm_init sm_method sm_maxiter plot),
      apply_writes (snd (kernel_writes g (dataset self) (Q self) (Rq self) method sm_init sm_method sm_maxiter plot)) self)"
proof -
  have bn: "\<And>est xs. for_each (bnse_component g est) xs self =
      (fst (writes_each (bnse_writes g est (dataset self)) xs),
       apply_writes (snd (writes_each (bnse_writes g est (dataset self)) xs)) self)"
    by (rule for_each_writes [where ds = "dataset self" and R = "Rq self"])
       (simp_all add: bnse_component_writes)
  have sm: "\<And>ps xs. for_each (sm_component ps) xs self =
      (fst (writes_each (sm_writes ps (Rq self)) xs),
       apply_writes (snd (writes_each (sm_writes ps (Rq self)) xs)) self)"
    by (rule for_each_writes [where ds = "dataset self" and R = "Rq self"])
       (simp_all add: sm_component_writes)
  show ?thesis
    by (simp add: estimate_kernels_def kernel_writes_def bn sm apply_writes_simps
        split: sum.splits pyobj.splits)
qed

lemma estimate_params_writes:
  "estimate_params g self method sm_init sm_method sm_maxiter plot =
     (fst (estimate_writes g (dataset self) (Q self) (Rq self) method sm_init sm_method sm_maxiter plot),
      apply_writes (snd (estimate_writes g (dataset self) (Q self) (Rq self) method sm_init sm_method sm_maxiter plot)) self)"
  by (simp add: estimate_params_def estimate_writes_def estimate_kernels_writes
      estimate_noise_writes apply_writes_simps apply_writes_frame split: sum.splits prod.splits)

lemma map_add_twice: "(p ++ w) ++ w = p ++ (w :: 'a \<Rightarrow> 'b option)"
  by (rule ext) (simp add: map_add_def split: option.splits)

text \<open>
  C8. Calling \<^verbatim>\<open>estimate_params\<close> a second time with the same arguments, on the
  model the first call left, ends the same way and leaves the same parameters as the
  first call alone: each value is computed afresh from the dataset and overwrites, and
  nothing accumulates. This holds for every namespace, dataset and method.
\<close>

theorem estimate_params_twice:
  "fst (estimate_params g (snd (estimate_params g self method sm_init sm_method sm_maxiter plot))
          method sm_init sm_method sm_maxiter plot)
     = fst (estimate_params g self method sm_init sm_method sm_maxiter plot)
   \<and> params (snd (estimate_params g (snd (estimate_params g self method sm_init sm_method sm_maxiter plot))
          method sm_init sm_method sm_maxiter plot))
     = params (snd (estimate_params g self method sm_init sm_method sm_maxiter plot))"
  by (simp add: estimate_params_writes apply_writes_frame apply_writes_params map_add_twice)

section \<open>The order of writes\<close>

lemma bnse_writes_keys:
  "prefix (map key (snd (bnse_writes g est ds q))) (component_keys ''BNSE'' q)
   \<and> (fst (bnse_writes g est ds q) = Inr () \<longrightarrow>
        map key (snd (bnse_writes g est ds q)) = component_keys ''BNSE'' q)"
  by (simp add: bnse_writes_def component_keys_def third_name_def key_def
      split: sum.splits prod.splits)

lemma sm_writes_keys:
  "prefix (map key (snd (sm_writes ps R q))) (component_keys ''SM'' q)
   \<and> (fst (sm_writes ps R q) = Inr () \<longrightarrow>
        map key (snd (sm_writes ps R q)) = component_keys ''SM'' q)"
  by (simp add: sm_writes_def component_keys_def third_name_def key_def
      split: sum.splits prod.splits)

lemma writes_each_keys:
  assumes "\<And>x. prefix (map key (snd (w x))) (k x)
              \<and> (fst (w x) = Inr () \<longrightarrow> map key (snd (w x)) = k x)"
  shows "prefix (map key (snd (writes_each w xs))) (concat (map k xs))
         \<and> (fst (writes_each w xs) = Inr () \<longrightarrow>
              map key (snd (writes_each w xs)) = concat (map k xs))"
proof (induction xs)
  case Nil
  then show ?case by simp
next
  case (Cons x xs)
  show ?case
  proof (cases "w x")
    case (Pair r ws)
    show ?thesis
    proof (cases r)
      case (Inl e)
      then show ?thesis using assms [of x] Pair by (simp add: prefix_prefix)
    next
      case (Inr u)
      then have "map key ws = k x" using assms [of x] Pair by simp
      then show ?thesis using Cons.IH Pair Inr by (cases "writes_each w xs") auto
    qed
  qed
qed

lemma noise_writes_keys:
  "prefix (map key (snd (noise_writes g ds Q0))) [(Q0, ''noise'')]
   \<and> (fst (noise_writes g ds Q0) = Inr () \<longrightarrow>
        map key (snd (noise_writes g ds Q0)) = [(Q0, ''noise'')])"
  by (simp add: noise_writes_def key_def split: sum.splits)

lemma kernel_writes_keys:
  "prefix (map key (snd (kernel_writes g ds Q0 R method sm_init sm_method sm_maxiter plot)))
          (concat (map (component_keys method) [0..<nat Q0]))
   \<and> (fst (kernel_writes g ds Q0 R method sm_init sm_method sm_maxiter plot) = Inr () \<longrightarrow>
        map key (snd (kernel_writes g ds Q0 R method sm_init sm_method sm_maxiter plot))
          = concat (map (component_keys method) [0..<nat Q0]))"
  using writes_each_keys [of "bnse_writes g (get_bnse_estimation ds Q0) ds" "component_keys ''BNSE''", OF bnse_writes_keys]
    writes_each_keys [of "sm_writes f R" "component_keys ''SM''" for f, OF sm_writes_keys]
  by (simp add: kernel_writes_def split: sum.splits pyobj.splits)

lemma estimate_writes_keys:
  "prefix (map key (snd (estimate_writes g ds Q0 R method sm_init sm_method sm_maxiter plot)))
          (write_order method Q0)
   \<and> (fst (estimate_writes g ds Q0 R method sm_init sm_method sm_maxiter plot) = Inr () \<longrightarrow>
        map key (snd (estimate_writes g ds Q0 R method sm_init sm_method sm_maxiter plot))
          = write_order method Q0)"
proof (cases "kernel_writes g ds Q0 R method sm_init sm_method sm_maxiter plot")
  case (Pair r ws)
  show ?thesis
  proof (cases r)
    case (Inl e)
    then show ?thesis
      using kernel_writes_keys [of g ds Q0 R "method" sm_init sm_method sm_maxiter plot] Pair
      by (simp add: estimate_writes_def write_order_def prefix_prefix)
  next
    case (Inr u)
    then have "map key ws = concat (map (component_keys method) [0..<nat Q0])"
      using kernel_writes_keys [of g ds Q0 R "method" sm_init sm_method sm_maxiter plot] Pair
      by simp
    moreover obtain r' ws' where n: "noise_writes g ds Q0 = (r', ws')"
      by (cases "noise_writes g ds Q0")
    moreover have "prefix (map key ws') [(Q0, ''noise'')]"
      and "r' = Inr () \<longrightarrow> map key ws' = [(Q0, ''noise'')]"
      using noise_writes_keys [of g ds Q0] n by simp_all
    moreover have "estimate_writes g ds Q0 R method sm_init sm_method sm_maxiter plot = (r', ws @ ws')"
      using Pair Inr n by (simp add: estimate_writes_def)
    ultimately show ?thesis
      by (simp only: write_order_def fst_conv snd_conv map_append same_prefix_prefix) simp
  qed
qed

lemma component_keys_fst: "k \<in> set (component_keys method q) \<Longrightarrow> fst k = int q \<and> snd k \<noteq> ''noise''"
  by (auto simp: component_keys_def third_name_def split: if_splits)

lemma distinct_component_keys: "distinct (component_keys method q)"
  by (simp add: component_keys_def third_name_def)

lemma distinct_components: "distinct (concat (map (component_keys method) [0..<n]))"
proof (induction n)
  case 0
  then show ?case by simp
next
  case (Suc n)
  have "set (concat (map (component_keys method) [0..<n])) \<inter> set (component_keys method n) = {}"
  proof (rule ccontr)
    assume "\<not> ?thesis"
    then obtain k where k: "k \<in> set (concat (map (component_keys method) [0..<n]))"
      "k \<in> set (component_keys method n)" by auto
    from k(1) obtain q where "q < n" "k \<in> set (component_keys method q)" by auto
    then show False using k(2) component_keys_fst [of k "method" q] component_keys_fst [of k "method" n]
      by simp
  qed
  then show ?case using Suc by (simp add: distinct_component_keys)
qed

lemma distinct_write_order: "distinct (write_order method Q0)"
proof -
  have "(Q0, ''noise'') \<notin> set (concat (map (component_keys method) [0..<nat Q0]))"
    using component_keys_fst by fastforce
  then show ?thesis by (simp add: write_order_def distinct_components)
qed

lemma apply_writes_kept:
  assumes "distinct (map key W)" and "(q, p, v) \<in> set W"
  shows "params (apply_writes W self) (q, p) = Some v"
proof -
  have d: "distinct (map fst (rev (map (\<lambda>w. (key w, snd (snd w))) W)))"
    using assms(1) by (simp add: rev_map [symmetric] comp_def distinct_rev)
  have "((q, p), v) \<in> set (rev (map (\<lambda>w. (key w, snd (snd w))) W))"
    using assms(2) by (force simp: key_def)
  then have "map_of (rev (map (\<lambda>w. (key w, snd (snd w))) W)) (q, p) = Some v"
    using d by simp
  then show ?thesis
    by (simp add: apply_writes_params map_add_def)
qed


lemma writes_each_fail:
  assumes "\<And>x. x \<in> set xs \<Longrightarrow> fst (w x) = Inr ()" and "fst (w y) = Inl e"
  shows "writes_each w (xs @ y # zs) = (Inl e, concat (map (\<lambda>x. snd (w x)) xs) @ snd (w y))"
  using assms(1)
proof (induction xs)
  case Nil
  then show ?case using assms(2) by (cases "w y") simp
next
  case (Cons x xs)
  then have "fst (w x) = Inr ()" by simp
  then obtain ws where "w x = (Inr (), ws)" by (cases "w x") auto
  then show ?case using Cons by simp
qed

lemma upt_split: "q < n \<Longrightarrow> [0..<n] = [0..<q] @ q # [Suc q..<n]"
  by (metis le_add2 le_add_same_cancel2 upt_add_eq_append upt_conv_Cons less_imp_le_nat le_Suc_ex)

lemma estimate_kernels_loop:
  "loop_body g self method sm_init sm_method sm_maxiter plot = Some body \<Longrightarrow>
   estimate_kernels g self method sm_init sm_method sm_maxiter plot
     = for_each body [0..<nat (Q self)] self"
  by (auto simp: loop_body_def estimate_kernels_def split: if_splits sum.splits pyobj.splits)

lemma loop_body_writes:
  assumes "loop_body g self method sm_init sm_method sm_maxiter plot = Some body"
  shows "\<exists>w. loop_writes g (dataset self) (Q self) (Rq self) method sm_init sm_method sm_maxiter plot = Some w
           \<and> (\<forall>q. body q self = (fst (w q), apply_writes (snd (w q)) self))"
  using assms
  by (auto simp: loop_body_def loop_writes_def bnse_component_writes sm_component_writes
      split: if_splits sum.splits pyobj.splits)

lemma loop_writes_keys:
  assumes "loop_writes g ds Q0 R method sm_init sm_method sm_maxiter plot = Some w"
  shows "prefix (map key (snd (w q))) (component_keys method q)
         \<and> (fst (w q) = Inr () \<longrightarrow> map key (snd (w q)) = component_keys method q)"
proof (cases "method = ''BNSE''")
  case True
  then have "w = bnse_writes g (get_bnse_estimation ds Q0) ds"
    using assms by (simp add: loop_writes_def)
  then show ?thesis
    using bnse_writes_keys [of g "get_bnse_estimation ds Q0" ds q] True by simp
next
  case False
  then obtain f where "method = ''SM''"
    and "w = sm_writes (f ds Q0 sm_init sm_method sm_maxiter plot) R"
    using assms by (auto simp: loop_writes_def split: if_splits sum.splits pyobj.splits)
  then show ?thesis
    using sm_writes_keys [of "f ds Q0 sm_init sm_method sm_maxiter plot" R q] by simp
qed

lemma loop_writes_kernel:
  assumes "loop_writes g ds Q0 R method sm_init sm_method sm_maxiter plot = Some w"
  shows "kernel_writes g ds Q0 R method sm_init sm_method sm_maxiter plot
           = writes_each w [0..<nat Q0]"
  using assms
  by (auto simp: loop_writes_def kernel_writes_def split: if_splits sum.splits pyobj.splits)

lemma estimate_writes_fail:
  assumes "loop_writes g ds Q0 R method sm_init sm_method sm_maxiter plot = Some w"
    and "q < nat Q0"
    and "\<And>q'. q' < q \<Longrightarrow> fst (w q') = Inr ()"
    and "fst (w q) = Inl e"
  shows "estimate_writes g ds Q0 R method sm_init sm_method sm_maxiter plot =
           (Inl e, concat (map (\<lambda>x. snd (w x)) [0..<q]) @ snd (w q))"
proof -
  have "writes_each w ([0..<q] @ q # [Suc q..<nat Q0]) =
          (Inl e, concat (map (\<lambda>x. snd (w x)) [0..<q]) @ snd (w q))"
    by (rule writes_each_fail) (simp_all add: assms(3,4))
  then show ?thesis
    using upt_split [OF assms(2)]
    by (simp add: estimate_writes_def loop_writes_kernel [OF assms(1)])
qed

lemma run_kept:
  assumes "(q, p, v) \<in> set (snd (estimate_writes g (dataset self) (Q self) (Rq self)
                                   meth sm_init sm_method sm_maxiter plot))"
  shows "params (snd (estimate_params g self meth sm_init sm_method sm_maxiter plot)) (q, p) = Some v"
proof -
  have "prefix (map key (snd (estimate_writes g (dataset self) (Q self) (Rq self)
                                   meth sm_init sm_method sm_maxiter plot)))
               (write_order meth (Q self))"
    using estimate_writes_keys
      [of g "dataset self" "Q self" "Rq self" meth sm_init sm_method sm_maxiter plot]
    by simp
  then have "distinct (map key (snd (estimate_writes g (dataset self) (Q self) (Rq self)
                                   meth sm_init sm_method sm_maxiter plot)))"
    using distinct_write_order [of meth "Q self"] by (auto simp: prefix_def)
  then show ?thesis
    using apply_writes_kept [OF _ assms] by (simp add: estimate_params_writes)
qed

lemma no_rollback:
  assumes body: "loop_body g self meth sm_init sm_method sm_maxiter plot = Some body"
    and q: "q < nat (Q self)"
    and before: "\<And>q'. q' < q \<Longrightarrow> fst (body q' self) = Inr ()"
    and fail: "fst (body q self) = Inl e"
  shows "fst (estimate_params g self meth sm_init sm_method sm_maxiter plot) = Inl e"
    and "prefix (concat (map (component_keys meth) [0..<q]))
           (map key (snd (estimate_writes g (dataset self) (Q self) (Rq self)
                            meth sm_init sm_method sm_maxiter plot)))"
    and "(Q self, ''noise'') \<notin> set (map key (snd (estimate_writes g (dataset self) (Q self) (Rq self)
                            meth sm_init sm_method sm_maxiter plot)))"
    and "\<And>q' k. q' < q \<Longrightarrow> k \<in> set (component_keys meth q') \<Longrightarrow>
           params (snd (estimate_params g self meth sm_init sm_method sm_maxiter plot)) k
             = params (snd (body q' self)) k
           \<and> params (snd (estimate_params g self meth sm_init sm_method sm_maxiter plot)) k \<noteq> None"
proof -
  obtain w where w: "loop_writes g (dataset self) (Q self) (Rq self) meth sm_init sm_method sm_maxiter plot = Some w"
    and bw: "\<And>x. body x self = (fst (w x), apply_writes (snd (w x)) self)"
    using loop_body_writes [OF body] by blast
  have ok: "\<And>q'. q' < q \<Longrightarrow> fst (w q') = Inr ()" using before bw by simp
  have bad: "fst (w q) = Inl e" using fail bw by simp
  note E = estimate_writes_fail [OF w q ok bad]
  show "fst (estimate_params g self meth sm_init sm_method sm_maxiter plot) = Inl e"
    by (simp add: estimate_params_writes E)
  have full: "\<And>q'. q' < q \<Longrightarrow> map key (snd (w q')) = component_keys meth q'"
    using loop_writes_keys [OF w] ok by simp
  have mk: "map (\<lambda>x. map key (snd (w x))) [0..<q] = map (component_keys meth) [0..<q]"
    by (rule map_cong) (simp_all add: full)
  have "map key (concat (map (\<lambda>x. snd (w x)) [0..<q]))
          = concat (map (\<lambda>x. map key (snd (w x))) [0..<q])"
    by (simp add: map_concat comp_def)
  then have kc: "map key (concat (map (\<lambda>x. snd (w x)) [0..<q]))
                   = concat (map (component_keys meth) [0..<q])"
    by (simp only: mk)
  show "prefix (concat (map (component_keys meth) [0..<q]))
           (map key (snd (estimate_writes g (dataset self) (Q self) (Rq self)
                            meth sm_init sm_method sm_maxiter plot)))"
    by (simp add: E kc)
  have part: "set (map key (snd (w q))) \<subseteq> set (component_keys meth q)"
    using loop_writes_keys [OF w, of q] set_mono_prefix by blast
  show "(Q self, ''noise'') \<notin> set (map key (snd (estimate_writes g (dataset self) (Q self) (Rq self)
                            meth sm_init sm_method sm_maxiter plot)))"
  proof
    assume "(Q self, ''noise'') \<in> set (map key (snd (estimate_writes g (dataset self) (Q self) (Rq self)
                            meth sm_init sm_method sm_maxiter plot)))"
    then have "(Q self, ''noise'') \<in> set (concat (map (component_keys meth) [0..<q]))
                 \<or> (Q self, ''noise'') \<in> set (component_keys meth q)"
      using part by (auto simp: E kc simp del: map_concat set_concat)
    then show False using component_keys_fst by fastforce
  qed
  fix q' k assume q': "q' < q" and k: "k \<in> set (component_keys meth q')"
  then have "k \<in> set (map key (snd (w q')))" using full by simp
  then obtain a p v where m: "(a, p, v) \<in> set (snd (w q'))" and ka: "k = (a, p)"
    by (auto simp: key_def)
  have d: "distinct (map key (snd (w q')))"
    using full [OF q'] by (simp add: distinct_component_keys)
  have one: "params (snd (body q' self)) k = Some v"
    using apply_writes_kept [OF d m] by (simp add: bw ka)
  have "(a, p, v) \<in> set (snd (estimate_writes g (dataset self) (Q self) (Rq self)
                            meth sm_init sm_method sm_maxiter plot))"
    using m q' by (auto simp: E)
  then have "params (snd (estimate_params g self meth sm_init sm_method sm_maxiter plot)) k = Some v"
    using run_kept by (simp add: ka)
  then show "params (snd (estimate_params g self meth sm_init sm_method sm_maxiter plot)) k
             = params (snd (body q' self)) k
           \<and> params (snd (estimate_params g self meth sm_init sm_method sm_maxiter plot)) k \<noteq> None"
    using one by simp
qed

text \<open>
  Whether a component completes or raises does not depend on the parameters already
  written, so "component \<open>q\<close> raises" can be read on the model the call started from.
\<close>

lemma loop_body_outcome:
  assumes "loop_body g self meth sm_init sm_method sm_maxiter plot = Some body"
  shows "fst (body q (apply_writes ws self)) = fst (body q self)"
  using assms
  by (auto simp: loop_body_def bnse_component_writes sm_component_writes apply_writes_frame
      split: if_splits sum.splits pyobj.splits)

lemma bnse_writes_complete:
  assumes "fst (bnse_writes g est ds q) = Inr ()"
  shows "\<exists>c m v. bnse_values g est q ds = Inr (c, m, v)
           \<and> snd (bnse_writes g est ds q) =
               [(int q, ''constant'', Mat c),
                (int q, ''mean'', Vec (map (\<lambda>x. x * 2 * pi) m)),
                (int q, ''scale'', Vec (map (\<lambda>x. x * 2) v))]"
  using assms by (auto simp: bnse_writes_def split: sum.splits prod.splits)

lemma BNSE_no_rollback:
  assumes "est = get_bnse_estimation (dataset self) (Q self)"
    and "q < nat (Q self)"
    and "\<And>q'. q' < q \<Longrightarrow> fst (bnse_component g est q' self) = Inr ()"
    and "fst (bnse_component g est q self) = Inl e"
    and "self' = snd (estimate_params g self ''BNSE'' sm_init sm_method sm_maxiter plot)"
    and "q' < q"
  shows "\<exists>c m v. bnse_values g est q' (dataset self) = Inr (c, m, v)
           \<and> params self' (int q', ''constant'') = Some (Mat c)
           \<and> params self' (int q', ''mean'') = Some (Vec (map (\<lambda>x. x * 2 * pi) m))
           \<and> params self' (int q', ''scale'') = Some (Vec (map (\<lambda>x. x * 2) v))"
proof -
  have b: "loop_body g self ''BNSE'' sm_init sm_method sm_maxiter plot = Some (bnse_component g est)"
    by (simp add: loop_body_def assms(1))
  have "fst (bnse_writes g est (dataset self) q') = Inr ()"
    using assms(3) [OF assms(6)] by (simp add: bnse_component_writes)
  then obtain c m v where v: "bnse_values g est q' (dataset self) = Inr (c, m, v)"
    and w: "snd (bnse_writes g est (dataset self) q') =
               [(int q', ''constant'', Mat c),
                (int q', ''mean'', Vec (map (\<lambda>x. x * 2 * pi) m)),
                (int q', ''scale'', Vec (map (\<lambda>x. x * 2) v))]"
    using bnse_writes_complete by blast
  have after: "params (snd (bnse_component g est q' self)) (int q', ''constant'') = Some (Mat c)"
    "params (snd (bnse_component g est q' self)) (int q', ''mean'') = Some (Vec (map (\<lambda>x. x * 2 * pi) m))"
    "params (snd (bnse_component g est q' self)) (int q', ''scale'') = Some (Vec (map (\<lambda>x. x * 2) v))"
    by (simp_all add: bnse_component_writes w apply_writes_def set_param_def)
  have "params self' k = params (snd (bnse_component g est q' self)) k"
    if "k \<in> set (component_keys ''BNSE'' q')" for k
    using no_rollback(4) [OF b assms(2,3,4) assms(6) that] by (simp add: assms(5))
  then show ?thesis
    using v after by (simp add: component_keys_def third_name_def)
qed


section \<open>Runs in a namespace that binds numpy\<close>

lemma np_numpy: "np numpy_globals attr = Inr ()"
  by (simp add: np_def load_global_def numpy_globals_def)

lemma upt2: "[0..<2] = [0, 1]" by (simp add: upt_rec)

lemma BNSE_example_numpy:
  "estimate_params numpy_globals example_model ''BNSE'' ''BNSE'' ''BFGS'' 2000 False
     = (Inr (), apply_writes example_written example_model)"
  by (simp add: estimate_params_def estimate_kernels_def bnse_component_def bnse_values_def
     np_numpy example_model_def example_dataset_def example_peaks_def get_input_dims_def
     get_output_dims_def len_def item_def np_empty2_def np_empty1_def set_column_def set_item_def
     slice_cq_def slice_q_def mean_axis0_def mean_def var_def sqrt_normalised_def
     estimate_noise_def enumerate_eq_zip upt2 set_param_def Let_def power2_eq_square
     apply_writes_def example_written_def)

lemma SM_example_numpy:
  "estimate_params numpy_globals example_model ''SM'' ''BNSE'' ''BFGS'' 2000 False
     = (Inr (),
        apply_writes
          [(0, ''constant'', Mat [[2, 4]]), (0, ''mean'', Vec [3]), (0, ''variance'', Vec [12]),
           (1, ''noise'', Vec [1 / 45, 1 / 6])]
          example_model)"
proof -
  have f: "load_global numpy_globals ''_estimate_from_sm'' = Inr (Function example_fit)"
    by (simp add: load_global_def numpy_globals_def)
  show ?thesis
    by (simp add: estimate_params_def estimate_kernels_def sm_component_def f
        np_numpy example_model_def example_dataset_def get_output_dims_def item_def
        np_empty1_def set_item_def mean_axis0_def mean_axis1_def mean_def var_def reshape_def
        example_fit_def estimate_noise_def enumerate_eq_zip upt2 set_param_def Let_def
        power2_eq_square apply_writes_def)
qed






theorem estimate_params_twice_witness:
  "fst (estimate_params numpy_globals
          (snd (estimate_params numpy_globals example_model ''BNSE'' ''BNSE'' ''BFGS'' 2000 False))
          ''BNSE'' ''BNSE'' ''BFGS'' 2000 False)
     = Inr ()
   \<and> params (snd (estimate_params numpy_globals
          (snd (estimate_params numpy_globals example_model ''BNSE'' ''BNSE'' ''BFGS'' 2000 False))
          ''BNSE'' ''BNSE'' ''BFGS'' 2000 False))
     = params (apply_writes example_written example_model)"
  using estimate_params_twice [of numpy_globals example_model "''BNSE''" "''BNSE''" "''BFGS''" 2000 False]
  by (simp add: BNSE_example_numpy)

section \<open>What the method computes once the names are bound\<close>

text \<open>
  In any namespace that binds \<^verbatim>\<open>np\<close> to numpy (and, for the SM strategy,
  \<^verbatim>\<open>_estimate_from_sm\<close> to a fit function), lines 64 to 90 compute and write the
  values the spec describes, provided the arrays they index are large enough.
\<close>

lemma fill_constant_columns:
  assumes "\<forall>c \<in> set cs. c < ncols \<and> c < len0 A" and "q < len2 A"
  shows "fill_constant A q ncols cs m =
           Inr (map (\<lambda>row. foldl (\<lambda>r c. r[c := amplitude A q c]) row cs) m)"
  using assms(1)
proof (induction cs arbitrary: m)
  case Nil
  then show ?case by simp
next
  case (Cons c cs)
  then show ?case
    using assms(2) by (simp add: slice_cq_def set_column_def amplitude_def comp_def)
qed

lemma foldl_update_upt:
  "k \<le> length row \<Longrightarrow> foldl (\<lambda>r c. r[c := f c]) row [0..<k] = map f [0..<k] @ drop k row"
proof (induction k)
  case 0
  then show ?case by simp
next
  case (Suc k)
  then have "k < length row" by simp
  then have d: "drop k row = row ! k # drop (Suc k) row"
    by (simp add: Cons_nth_drop_Suc)
  show ?case using Suc by (simp add: list_update_append d)
qed

lemma fill_constant_numpy:
  assumes "M \<le> len0 A" and "q < len2 A"
  shows "fill_constant A q M [0..<M] (np_empty2 D M) = Inr (replicate D (map (amplitude A q) [0..<M]))"
proof -
  have "\<forall>c \<in> set [0..<M]. c < M \<and> c < len0 A" using assms(1) by simp
  then show ?thesis
    using assms(2) by (simp add: fill_constant_columns np_empty2_def foldl_update_upt)
qed

lemma bnse_values_numpy:
  assumes "load_global g ''np'' = Inr Numpy" and "channels ds \<noteq> []"
    and "length (channels ds) \<le> len0 A" and "q < len2 A" and "q < len2 Mu" and "q < len2 V"
  shows "bnse_values g (A, Mu, V) q ds =
     Inr (spec_constant A (input_dims (hd (channels ds))) (length (channels ds)) q,
          mean_axis0 \<lparr>rows = len0 Mu, cols = len1 Mu, at2 = (\<lambda>c d. at3 Mu c d q)\<rparr>,
          mean_axis0 \<lparr>rows = len0 V, cols = len1 V, at2 = (\<lambda>c d. at3 V c d q)\<rparr>)"
proof -
  obtain c cs where ch: "channels ds = c # cs" using assms(2) by (cases "channels ds") auto
  have n: "np g attr = Inr ()" for attr using assms(1) by (simp add: np_def)
  have f: "fill_constant A q (get_output_dims ds) [0..<len ds]
             (np_empty2 (input_dims c) (get_output_dims ds))
           = Inr (replicate (input_dims c) (map (amplitude A q) [0..<length (channels ds)]))"
    using fill_constant_numpy [OF assms(3,4)] by (simp add: get_output_dims_def len_def)
  have i: "item (get_input_dims ds) 0 = Inr (input_dims c)"
    by (simp add: item_def get_input_dims_def ch)
  have h: "hd (channels ds) = c" by (simp add: ch)
  show ?thesis
    using assms(5,6)
    by (simp add: bnse_values_def n i h f slice_q_def sqrt_normalised_def spec_constant_def
        Let_def comp_def)
qed

lemma fill_noise_enumerate:
  "k + length chs \<le> length v \<Longrightarrow>
   fill_noise (enumerate k chs) v =
     Inr (take k v @ map (\<lambda>ch. var (Y ch) / 30) chs @ drop (k + length chs) v)"
proof (induction chs arbitrary: k v)
  case Nil
  then show ?case by simp
next
  case (Cons ch chs)
  then have "k < length v" by simp
  then have t: "take (Suc k) (v[k := x]) = take k v @ [x]" for x
    by (simp add: take_Suc_conv_app_nth)
  show ?case using Cons by (simp add: set_item_def t)
qed

lemma fill_noise_numpy:
  "fill_noise (enumerate 0 (channels ds)) (np_empty1 (get_output_dims ds)) = Inr (spec_noise ds)"
  by (simp add: fill_noise_enumerate np_empty1_def get_output_dims_def spec_noise_def)

lemma reshape_one: "reshape 1 v = Inr [v]"
  by (simp add: reshape_def)

lemma writes_each_all_ok:
  "(\<And>x. x \<in> set xs \<Longrightarrow> w x = (Inr (), ws x)) \<Longrightarrow>
   writes_each w xs = (Inr (), concat (map ws xs))"
  by (induction xs) simp_all

lemma bnse_writes_numpy:
  assumes "load_global g ''np'' = Inr Numpy" and "channels ds \<noteq> []"
    and "length (channels ds) \<le> len0 A" and "q < len2 A" and "q < len2 Mu" and "q < len2 V"
  shows "bnse_writes g (A, Mu, V) ds q = (Inr (), bnse_spec_writes (A, Mu, V) ds q)"
proof -
  have n: "np g attr = Inr ()" for attr using assms(1) by (simp add: np_def)
  show ?thesis
    by (simp add: bnse_writes_def bnse_values_numpy [OF assms] n bnse_spec_writes_def
        mean_axis0_def spec_mean_def spec_scale_def comp_def)
qed

lemma sm_writes_fit:
  "q < length ps \<Longrightarrow> sm_writes ps 1 q = (Inr (), sm_spec_writes ps q)"
  by (simp add: sm_writes_def item_def reshape_one sm_spec_writes_def)

lemma noise_writes_numpy:
  "load_global g ''np'' = Inr Numpy \<Longrightarrow> noise_writes g ds Q0 = (Inr (), [(Q0, ''noise'', Vec (spec_noise ds))])"
  by (simp add: noise_writes_def np_def fill_noise_numpy)

lemma estimate_writes_BNSE_numpy:
  assumes "load_global g ''np'' = Inr Numpy" and "channels ds \<noteq> []"
    and "get_bnse_estimation ds Q0 = (A, Mu, V)"
    and "length (channels ds) \<le> len0 A"
    and "nat Q0 \<le> len2 A" and "nat Q0 \<le> len2 Mu" and "nat Q0 \<le> len2 V"
  shows "estimate_writes g ds Q0 R ''BNSE'' sm_init sm_method sm_maxiter plot =
     (Inr (), concat (map (bnse_spec_writes (A, Mu, V) ds) [0..<nat Q0])
               @ [(Q0, ''noise'', Vec (spec_noise ds))])"
proof -
  have "writes_each (bnse_writes g (A, Mu, V) ds) [0..<nat Q0] =
          (Inr (), concat (map (bnse_spec_writes (A, Mu, V) ds) [0..<nat Q0]))"
    using assms(5,6,7)
    by (intro writes_each_all_ok bnse_writes_numpy [OF assms(1,2,4)]) simp_all
  then show ?thesis
    by (simp add: estimate_writes_def kernel_writes_def assms(3) noise_writes_numpy [OF assms(1)])
qed

lemma estimate_writes_SM_fit:
  assumes "load_global g ''np'' = Inr Numpy" and "load_global g ''_estimate_from_sm'' = Inr (Function f)"
    and "nat Q0 \<le> length (f ds Q0 sm_init sm_method sm_maxiter plot)"
  shows "estimate_writes g ds Q0 1 ''SM'' sm_init sm_method sm_maxiter plot =
     (Inr (), concat (map (sm_spec_writes (f ds Q0 sm_init sm_method sm_maxiter plot)) [0..<nat Q0])
               @ [(Q0, ''noise'', Vec (spec_noise ds))])"
proof -
  have "writes_each (sm_writes (f ds Q0 sm_init sm_method sm_maxiter plot) 1) [0..<nat Q0] =
          (Inr (), concat (map (sm_spec_writes (f ds Q0 sm_init sm_method sm_maxiter plot)) [0..<nat Q0]))"
    using assms(3) by (intro writes_each_all_ok sm_writes_fit) simp
  then show ?thesis
    by (simp add: estimate_writes_def kernel_writes_def assms(2)
        noise_writes_numpy [OF assms(1)])
qed

lemma full_run_kept:
  assumes "estimate_writes g (dataset self) (Q self) (Rq self) meth sm_init sm_method sm_maxiter plot
             = (Inr (), W)"
    and "(q, p, v) \<in> set W"
  shows "params (snd (estimate_params g self meth sm_init sm_method sm_maxiter plot)) (q, p) = Some v"
proof -
  have "map key W = write_order meth (Q self)"
    using estimate_writes_keys
      [of g "dataset self" "Q self" "Rq self" meth sm_init sm_method sm_maxiter plot] assms(1)
    by simp
  then have "distinct (map key W)" by (simp add: distinct_write_order)
  then show ?thesis
    using apply_writes_kept [OF _ assms(2)] assms(1) by (simp add: estimate_params_writes)
qed

lemma estimate_params_BNSE_numpy:
  assumes "load_global g ''np'' = Inr Numpy" and "channels (dataset self) \<noteq> []"
    and "get_bnse_estimation (dataset self) (Q self) = (A, Mu, V)"
    and "length (channels (dataset self)) \<le> len0 A"
    and "nat (Q self) \<le> len2 A" and "nat (Q self) \<le> len2 Mu" and "nat (Q self) \<le> len2 V"
    and "self' = snd (estimate_params g self ''BNSE'' sm_init sm_method sm_maxiter plot)"
  shows "fst (estimate_params g self ''BNSE'' sm_init sm_method sm_maxiter plot) = Inr ()"
    and "q < nat (Q self) \<Longrightarrow>
           params self' (int q, ''constant'') =
             Some (Mat (spec_constant A (input_dims (hd (channels (dataset self))))
                          (length (channels (dataset self))) q))
         \<and> params self' (int q, ''mean'') = Some (Vec (spec_mean Mu q))
         \<and> params self' (int q, ''scale'') = Some (Vec (spec_scale V q))"
    and "params self' (Q self, ''noise'') = Some (Vec (spec_noise (dataset self)))"
proof -
  note E = estimate_writes_BNSE_numpy [OF assms(1-7), of "Rq self" sm_init sm_method sm_maxiter plot]
  show "fst (estimate_params g self ''BNSE'' sm_init sm_method sm_maxiter plot) = Inr ()"
    by (simp add: estimate_params_writes E)
  show "params self' (Q self, ''noise'') = Some (Vec (spec_noise (dataset self)))"
    unfolding assms(8) by (rule full_run_kept [OF E]) simp
  assume q: "q < nat (Q self)"
  have "set (bnse_spec_writes (A, Mu, V) (dataset self) q)
          \<subseteq> set (concat (map (bnse_spec_writes (A, Mu, V) (dataset self)) [0..<nat (Q self)]))"
    using q by auto
  then have m: "w \<in> set (bnse_spec_writes (A, Mu, V) (dataset self) q) \<Longrightarrow>
     w \<in> set (concat (map (bnse_spec_writes (A, Mu, V) (dataset self)) [0..<nat (Q self)])
               @ [(Q self, ''noise'', Vec (spec_noise (dataset self)))])" for w
    by auto
  show "params self' (int q, ''constant'') =
             Some (Mat (spec_constant A (input_dims (hd (channels (dataset self))))
                          (length (channels (dataset self))) q))
         \<and> params self' (int q, ''mean'') = Some (Vec (spec_mean Mu q))
         \<and> params self' (int q, ''scale'') = Some (Vec (spec_scale V q))"
    unfolding assms(8)
    by (intro conjI full_run_kept [OF E] m) (simp_all add: bnse_spec_writes_def)
qed

lemma estimate_params_SM_fit:
  assumes "load_global g ''np'' = Inr Numpy" and "load_global g ''_estimate_from_sm'' = Inr (Function f)"
    and "Rq self = 1"
    and "ps = f (dataset self) (Q self) sm_init sm_method sm_maxiter plot"
    and "nat (Q self) \<le> length ps"
    and "self' = snd (estimate_params g self ''SM'' sm_init sm_method sm_maxiter plot)"
  shows "fst (estimate_params g self ''SM'' sm_init sm_method sm_maxiter plot) = Inr ()"
    and "q < nat (Q self) \<Longrightarrow>
           params self' (int q, ''constant'') = Some (Mat [mean_axis0 (weight (ps ! q))])
         \<and> params self' (int q, ''mean'') = Some (Vec (mean_axis1 (mean_fit (ps ! q))))
         \<and> params self' (int q, ''variance'')
             = Some (Vec (map (\<lambda>x. x * 2) (mean_axis1 (scale (ps ! q)))))"
    and "params self' (Q self, ''noise'') = Some (Vec (spec_noise (dataset self)))"
proof -
  have l: "nat (Q self) \<le> length (f (dataset self) (Q self) sm_init sm_method sm_maxiter plot)"
    using assms(4,5) by simp
  have E: "estimate_writes g (dataset self) (Q self) (Rq self) ''SM'' sm_init sm_method sm_maxiter plot =
     (Inr (), concat (map (sm_spec_writes ps) [0..<nat (Q self)])
               @ [(Q self, ''noise'', Vec (spec_noise (dataset self)))])"
    using estimate_writes_SM_fit [OF assms(1,2) l] by (simp add: assms(3,4))
  show "fst (estimate_params g self ''SM'' sm_init sm_method sm_maxiter plot) = Inr ()"
    by (simp add: estimate_params_writes E)
  show "params self' (Q self, ''noise'') = Some (Vec (spec_noise (dataset self)))"
    unfolding assms(6) by (rule full_run_kept [OF E]) simp
  assume q: "q < nat (Q self)"
  have "set (sm_spec_writes ps q) \<subseteq> set (concat (map (sm_spec_writes ps) [0..<nat (Q self)]))"
    using q by auto
  then have m: "w \<in> set (sm_spec_writes ps q) \<Longrightarrow>
     w \<in> set (concat (map (sm_spec_writes ps) [0..<nat (Q self)])
               @ [(Q self, ''noise'', Vec (spec_noise (dataset self)))])" for w
    by auto
  show "params self' (int q, ''constant'') = Some (Mat [mean_axis0 (weight (ps ! q))])
         \<and> params self' (int q, ''mean'') = Some (Vec (mean_axis1 (mean_fit (ps ! q))))
         \<and> params self' (int q, ''variance'')
             = Some (Vec (map (\<lambda>x. x * 2) (mean_axis1 (scale (ps ! q)))))"
    unfolding assms(6)
    by (intro conjI full_run_kept [OF E] m) (simp_all add: sm_spec_writes_def)
qed

end
